theory Spec2Isabelle
  imports Main "HOL-Library.Word"
begin

unbundle bit_operations_syntax

section \<open>The DANE backend of serles: data model\<close>

text \<open>
  The embedding follows \<^verbatim>\<open>src/serles/backends/dane.py\<close>. Python \<^verbatim>\<open>bytes\<close> are
  lists of 8-bit words, Python \<^verbatim>\<open>str\<close> are strings, Python integers are \<open>int\<close>.
  A \<^verbatim>\<open>datetime\<close> is the number of microseconds since the epoch (the resolution of
  Python's \<^verbatim>\<open>datetime\<close>), a \<^verbatim>\<open>timedelta\<close> a number of microseconds.
\<close>

type_synonym bytes = "8 word list"
type_synonym datetime = int

text \<open>Exceptions the code can meet. All of them derive from Python's \<^verbatim>\<open>Exception\<close>.\<close>

datatype error =
    ValueError
  | TypeError
  | KeyError
  | OSError
  | FileNotFoundError
  | UnsupportedAlgorithm
  | RequestException

subsection \<open>X.509 values of the \<^verbatim>\<open>cryptography\<close> package\<close>

datatype name_oid = COMMON_NAME | ORGANIZATION_NAME | ORGANIZATIONAL_UNIT_NAME

datatype name_attribute = NameAttribute name_oid string

datatype name = Name "name_attribute list"

text \<open>A public key is identified by the DER encoding of its SubjectPublicKeyInfo, which
  is what \<^verbatim>\<open>public_bytes(Encoding.DER, PublicFormat.SubjectPublicKeyInfo)\<close> returns.\<close>

datatype public_key = PublicKey (spki_der: bytes)

datatype private_key = PrivateKey (private_public_key: public_key) (secret: bytes)

datatype general_name = DNSName string

datatype extension_value =
    SubjectAlternativeName "general_name list"
  | BasicConstraints bool "nat option"

datatype extension = Extension (ext_value: extension_value) (critical: bool)

text \<open>\<^verbatim>\<open>x509.NameAttribute(oid, value)\<close> raises \<^verbatim>\<open>ValueError\<close> for a common name whose
  UTF-8 encoding is not 1 to 64 bytes long; a string of the model is the UTF-8 encoding
  of the Python string.\<close>

definition name_attribute :: "name_oid \<Rightarrow> string \<Rightarrow> error + name_attribute" where
  "name_attribute oid v =
     (if oid = COMMON_NAME \<and> (length v < 1 \<or> 64 < length v) then Inl ValueError
      else Inr (NameAttribute oid v))"

text \<open>\<^verbatim>\<open>x509.DNSName(value)\<close> raises \<^verbatim>\<open>ValueError\<close> for a value that is not ASCII. The
  list comprehension of line 52 builds the names in order and stops at the first one
  that raises.\<close>

definition dns_name :: "string \<Rightarrow> error + general_name" where
  "dns_name v =
     (if list_all (\<lambda>c. of_char c < (128 :: nat)) v then Inr (DNSName v) else Inl ValueError)"

fun dns_names :: "string list \<Rightarrow> error + general_name list" where
  "dns_names [] = Inr []"
| "dns_names (n # ns) =
     (case dns_name n of
        Inl e \<Rightarrow> Inl e
      | Inr g \<Rightarrow> (case dns_names ns of Inl e \<Rightarrow> Inl e | Inr gs \<Rightarrow> Inr (g # gs)))"

text \<open>The fields a \<^verbatim>\<open>CertificateBuilder\<close> collects, and the certificate its
  \<^verbatim>\<open>sign\<close> method makes of them: the same fields and a signature.\<close>

record certificate_builder =
  subject :: name
  issuer :: name
  public_key :: public_key
  serial_number :: int
  not_valid_before :: datetime
  not_valid_after :: datetime
  extensions :: "extension list"

record certificate = certificate_builder +
  signature :: bytes

text \<open>The certificate that \<^verbatim>\<open>sign\<close> returns is read back from its DER encoding, whose
  times carry whole seconds: the microseconds of the two times the builder was given
  are dropped.\<close>

definition whole_seconds :: "datetime \<Rightarrow> datetime" where
  "whole_seconds t = t - t mod 1000000"

definition signed_certificate :: "certificate_builder \<Rightarrow> bytes \<Rightarrow> certificate" where
  "signed_certificate builder sig =
     certificate_builder.extend
       (builder\<lparr>not_valid_before := whole_seconds (not_valid_before builder),
                not_valid_after := whole_seconds (not_valid_after builder)\<rparr>)
       \<lparr>signature = sig\<rparr>"

text \<open>A parsed signing request. \<^verbatim>\<open>csr_obj.public_key()\<close> raises for a key type the
  library does not support.\<close>

record csr_object =
  csr_public_key :: "error + public_key"

text \<open>\<^verbatim>\<open>SubjectAlternativeName.get_values_for_type(DNSName)\<close>: the DNS names an
  extension value carries, in order.\<close>

fun dns_name_value :: "general_name \<Rightarrow> string" where
  "dns_name_value (DNSName n) = n"

fun get_values_for_type_DNSName :: "extension_value \<Rightarrow> string list" where
  "get_values_for_type_DNSName (SubjectAlternativeName gns) = map dns_name_value gns"
| "get_values_for_type_DNSName (BasicConstraints ca pl) = []"

fun is_subject_alternative_name :: "extension \<Rightarrow> bool" where
  "is_subject_alternative_name (Extension (SubjectAlternativeName gns) c) = True"
| "is_subject_alternative_name (Extension (BasicConstraints ca pl) c) = False"

subsection \<open>The world outside the program\<close>

datatype json =
    JString string
  | JInt int
  | JArray "json list"
  | JObject "(string \<times> json) list"

record response =
  status_code :: int
  text_body :: string

record process =
  stdout :: bytes
  returncode :: int

text \<open>
  Everything \<^verbatim>\<open>sign\<close> obtains from outside the program during one call: the outcome of
  each library, operating-system and network call. \<open>utcnow env k\<close> is what the
  \<open>k\<close>-th call of \<^verbatim>\<open>datetime.datetime.utcnow()\<close> returns and
  \<open>named_temporary_file env k\<close> the name of the \<open>k\<close>-th \<^verbatim>\<open>NamedTemporaryFile\<close>;
  \<open>urandom_uuid4\<close> and \<open>urandom_serial\<close> are the 16 and 20 bytes that
  \<^verbatim>\<open>uuid.uuid4()\<close> and \<^verbatim>\<open>x509.random_serial_number()\<close> read from \<^verbatim>\<open>os.urandom\<close>, as
  big-endian integers. \<open>builder_sign\<close> stands for the library's validation of the
  builder's fields and its signing: it yields the signature or raises.
  \<open>popen env args files\<close> is the outcome of starting the command \<open>args\<close> with the
  temporary files \<open>files\<close> on disk and reading its standard output to the end.
\<close>

record env =
  load_der_x509_csr :: "bytes \<Rightarrow> error + csr_object"
  generate_private_key :: "int \<Rightarrow> int \<Rightarrow> error + private_key"
  utcnow :: "nat \<Rightarrow> datetime"
  urandom_uuid4 :: "128 word"
  urandom_serial :: "160 word"
  builder_sign :: "certificate_builder \<Rightarrow> private_key \<Rightarrow> error + bytes"
  public_bytes_pem :: "certificate \<Rightarrow> bytes"
  named_temporary_file :: "nat \<Rightarrow> error + string"
  popen :: "string list \<Rightarrow> (string \<times> bytes) list \<Rightarrow> error + process"
  python_int :: "string \<Rightarrow> error + int"
  requests_post :: "string \<Rightarrow> (string \<times> string) list \<Rightarrow> json \<Rightarrow> error + response"

text \<open>The backend object: \<^verbatim>\<open>self.config\<close> is a dictionary of dictionaries.\<close>

record dane_backend =
  config :: "string \<rightharpoonup> (string \<rightharpoonup> string)"

subsection \<open>Constants and library functions\<close>

text \<open>\<^verbatim>\<open>TIME_DELTA = datetime.timedelta(days=5)\<close>, in microseconds.\<close>

definition TIME_DELTA :: int where
  "TIME_DELTA = 5 * 86400 * 1000000"

text \<open>\<^verbatim>\<open>uuid.uuid4()\<close> is \<^verbatim>\<open>UUID(bytes=os.urandom(16), version=4)\<close>: the constructor
  sets the variant bits to binary 10 and the version nibble to 4. \<^verbatim>\<open>int(uuid.uuid4())\<close>
  is that 128-bit value as an integer.\<close>

definition uuid4 :: "128 word \<Rightarrow> 128 word" where
  "uuid4 r =
     (((r AND NOT (push_bit 48 0xc000)) OR push_bit 48 0x8000)
        AND NOT (push_bit 64 0xf000)) OR push_bit 76 4"

definition int_uuid4 :: "128 word \<Rightarrow> int" where
  "int_uuid4 r = uint (uuid4 r)"

text \<open>\<^verbatim>\<open>x509.random_serial_number()\<close> is
  \<^verbatim>\<open>int.from_bytes(os.urandom(20), "big") >> 1\<close>.\<close>

definition random_serial_number :: "160 word \<Rightarrow> int" where
  "random_serial_number r = uint (drop_bit 1 r)"

subsection \<open>SHA-256 and its hexadecimal rendering\<close>

text \<open>\<^verbatim>\<open>hashlib.sha256(data).hexdigest()\<close>: SHA-256 as FIPS 180-4 defines it, on 32-bit
  words, and the digest rendered with two lowercase hexadecimal digits a byte.\<close>

definition K256 :: "32 word list" where
  "K256 =
     [0x428a2f98, 0x71374491, 0xb5c0fbcf, 0xe9b5dba5]
     @ [0x3956c25b, 0x59f111f1, 0x923f82a4, 0xab1c5ed5]
     @ [0xd807aa98, 0x12835b01, 0x243185be, 0x550c7dc3]
     @ [0x72be5d74, 0x80deb1fe, 0x9bdc06a7, 0xc19bf174]
     @ [0xe49b69c1, 0xefbe4786, 0x0fc19dc6, 0x240ca1cc]
     @ [0x2de92c6f, 0x4a7484aa, 0x5cb0a9dc, 0x76f988da]
     @ [0x983e5152, 0xa831c66d, 0xb00327c8, 0xbf597fc7]
     @ [0xc6e00bf3, 0xd5a79147, 0x06ca6351, 0x14292967]
     @ [0x27b70a85, 0x2e1b2138, 0x4d2c6dfc, 0x53380d13]
     @ [0x650a7354, 0x766a0abb, 0x81c2c92e, 0x92722c85]
     @ [0xa2bfe8a1, 0xa81a664b, 0xc24b8b70, 0xc76c51a3]
     @ [0xd192e819, 0xd6990624, 0xf40e3585, 0x106aa070]
     @ [0x19a4c116, 0x1e376c08, 0x2748774c, 0x34b0bcb5]
     @ [0x391c0cb3, 0x4ed8aa4a, 0x5b9cca4f, 0x682e6ff3]
     @ [0x748f82ee, 0x78a5636f, 0x84c87814, 0x8cc70208]
     @ [0x90befffa, 0xa4506ceb, 0xbef9a3f7, 0xc67178f2]"

type_synonym sha_state =
  "32 word \<times> 32 word \<times> 32 word \<times> 32 word \<times> 32 word \<times> 32 word \<times> 32 word \<times> 32 word"

definition H256 :: sha_state where
  "H256 = (0x6a09e667, 0xbb67ae85, 0x3c6ef372, 0xa54ff53a,
           0x510e527f, 0x9b05688c, 0x1f83d9ab, 0x5be0cd19)"

definition Ch :: "32 word \<Rightarrow> 32 word \<Rightarrow> 32 word \<Rightarrow> 32 word" where
  "Ch x y z = (x AND y) XOR (NOT x AND z)"

definition Maj :: "32 word \<Rightarrow> 32 word \<Rightarrow> 32 word \<Rightarrow> 32 word" where
  "Maj x y z = (x AND y) XOR (x AND z) XOR (y AND z)"

definition Sigma0 :: "32 word \<Rightarrow> 32 word" where
  "Sigma0 x = word_rotr 2 x XOR word_rotr 13 x XOR word_rotr 22 x"

definition Sigma1 :: "32 word \<Rightarrow> 32 word" where
  "Sigma1 x = word_rotr 6 x XOR word_rotr 11 x XOR word_rotr 25 x"

definition sigma0 :: "32 word \<Rightarrow> 32 word" where
  "sigma0 x = word_rotr 7 x XOR word_rotr 18 x XOR drop_bit 3 x"

definition sigma1 :: "32 word \<Rightarrow> 32 word" where
  "sigma1 x = word_rotr 17 x XOR word_rotr 19 x XOR drop_bit 10 x"

text \<open>Big-endian conversions between words and bytes.\<close>

definition be_word32 :: "bytes \<Rightarrow> 32 word" where
  "be_word32 bs = foldl (\<lambda>acc b. push_bit 8 acc OR ucast b) 0 bs"

definition word32_be :: "32 word \<Rightarrow> bytes" where
  "word32_be w = map (\<lambda>k. ucast (drop_bit k w)) [24, 16, 8, 0]"

definition word64_be :: "64 word \<Rightarrow> bytes" where
  "word64_be w = map (\<lambda>k. ucast (drop_bit k w)) [56, 48, 40, 32, 24, 16, 8, 0]"

text \<open>Padding: a one bit, zero bits up to 56 modulo 64 bytes, and the length of the
  message in bits as 8 bytes.\<close>

definition sha_pad :: "bytes \<Rightarrow> bytes" where
  "sha_pad m =
     m @ [0x80] @ replicate ((119 - length m mod 64) mod 64) 0
       @ word64_be (word_of_int (8 * int (length m)))"

fun chunks :: "nat \<Rightarrow> 'a list \<Rightarrow> 'a list list" where
  "chunks n xs = (if n = 0 \<or> xs = [] then [] else take n xs # chunks n (drop n xs))"

definition block_words :: "bytes \<Rightarrow> 32 word list" where
  "block_words block = map be_word32 (chunks 4 block)"

text \<open>The message schedule: 16 words of the block, extended to 64.\<close>

fun schedule :: "nat \<Rightarrow> 32 word list \<Rightarrow> 32 word list" where
  "schedule 0 w = w"
| "schedule (Suc n) w =
     schedule n
       (w @ [sigma1 (w ! (length w - 2)) + w ! (length w - 7)
             + sigma0 (w ! (length w - 15)) + w ! (length w - 16)])"

fun sha_round :: "sha_state \<Rightarrow> 32 word \<times> 32 word \<Rightarrow> sha_state" where
  "sha_round (a, b, c, d, e, f, g, h) (k, w) =
     (let t1 = h + Sigma1 e + Ch e f g + k + w;
          t2 = Sigma0 a + Maj a b c
      in (t1 + t2, a, b, c, d + t1, e, f, g))"

fun add_state :: "sha_state \<Rightarrow> sha_state \<Rightarrow> sha_state" where
  "add_state (a, b, c, d, e, f, g, h) (a', b', c', d', e', f', g', h') =
     (a + a', b + b', c + c', d + d', e + e', f + f', g + g', h + h')"

definition compress :: "sha_state \<Rightarrow> bytes \<Rightarrow> sha_state" where
  "compress hs block =
     add_state hs (foldl sha_round hs (zip K256 (schedule 48 (block_words block))))"

fun state_bytes :: "sha_state \<Rightarrow> bytes" where
  "state_bytes (a, b, c, d, e, f, g, h) =
     concat (map word32_be [a, b, c, d, e, f, g, h])"

definition sha256 :: "bytes \<Rightarrow> bytes" where
  "sha256 m = state_bytes (foldl compress H256 (chunks 64 (sha_pad m)))"

definition hex_digit :: "nat \<Rightarrow> char" where
  "hex_digit n = ''0123456789abcdef'' ! (n mod 16)"

definition hex_byte :: "8 word \<Rightarrow> string" where
  "hex_byte b = [hex_digit (unat b div 16), hex_digit (unat b mod 16)]"

definition hexdigest :: "bytes \<Rightarrow> string" where
  "hexdigest bs = concat (map hex_byte bs)"

section \<open>The program\<close>

subsection \<open>\<^verbatim>\<open>generate_ephemeral_ca\<close>\<close>

text \<open>The builder of the CA certificate (lines 90 to 114): subject and issuer are the same
  fixed name, whose three attributes \<^verbatim>\<open>x509.NameAttribute\<close> accepts, the validity bounds
  come from two readings of the clock, the serial number is \<^verbatim>\<open>int(uuid.uuid4())\<close>.\<close>

definition ca_name :: name where
  "ca_name = Name
     [NameAttribute COMMON_NAME ''Handshake Tools Ephemeral CA'',
      NameAttribute ORGANIZATION_NAME ''Handshake Tools'',
      NameAttribute ORGANIZATIONAL_UNIT_NAME ''ACME'']"

definition generate_ephemeral_ca :: "env \<Rightarrow> error + (certificate \<times> private_key)" where
  "generate_ephemeral_ca env =
     (case generate_private_key env 65537 2048 of
        Inl e \<Rightarrow> Inl e
      | Inr private_key \<Rightarrow>
          (let public_key = private_public_key private_key;
               subject = ca_name;
               issuer = subject;
               builder =
                 \<lparr>subject = subject,
                  issuer = issuer,
                  public_key = public_key,
                  serial_number = int_uuid4 (urandom_uuid4 env),
                  not_valid_before = utcnow env 0 - TIME_DELTA,
                  not_valid_after = utcnow env 1 + TIME_DELTA,
                  extensions = [Extension (BasicConstraints True None) True]\<rparr>
           in case builder_sign env builder private_key of
                Inl e \<Rightarrow> Inl e
              | Inr sig \<Rightarrow> Inr (signed_certificate builder sig, private_key)))"

subsection \<open>\<^verbatim>\<open>create_fullchain\<close>\<close>

text \<open>The loop of lines 128 to 133: one temporary file a certificate, the \<open>k\<close>-th one
  named by the operating system, and two more arguments for the command line. \<open>files\<close>
  are the files written so far, oldest first.\<close>

fun write_certfiles ::
  "env \<Rightarrow> nat \<Rightarrow> bytes list \<Rightarrow> (string \<times> bytes) list \<Rightarrow> string list
     \<Rightarrow> error + ((string \<times> bytes) list \<times> string list)" where
  "write_certfiles env k [] files certfile_args = Inr (files, certfile_args)"
| "write_certfiles env k (cert # certs) files certfile_args =
     (case named_temporary_file env k of
        Inl e \<Rightarrow> Inl e
      | Inr f_name \<Rightarrow>
          write_certfiles env (Suc k) certs
            (files @ [(f_name, cert)]) (certfile_args @ [''-certfile'', f_name]))"

definition openssl_command :: "string list" where
  "openssl_command = [''openssl'', ''crl2pkcs7'', ''-nocrl'', ''-outform'', ''DER'']"

text \<open>Lines 137 to 149: the process is started, its standard output is read to the end
  and returned. The exit status is never read.\<close>

definition create_fullchain :: "env \<Rightarrow> bytes list \<Rightarrow> error + bytes" where
  "create_fullchain env certs =
     (case write_certfiles env 0 certs [] [] of
        Inl e \<Rightarrow> Inl e
      | Inr (files, certfile_args) \<Rightarrow>
          (case popen env (openssl_command @ certfile_args) files of
             Inl e \<Rightarrow> Inl e
           | Inr proc \<Rightarrow> (let pem_cert = stdout proc in Inr pem_cert)))"

subsection \<open>\<^verbatim>\<open>send_cert_issue_email\<close>\<close>

text \<open>\<^verbatim>\<open>self.config["sendgrid"][key]\<close>: a missing key raises \<^verbatim>\<open>KeyError\<close>.\<close>

definition sendgrid_config :: "dane_backend \<Rightarrow> string \<Rightarrow> error + string" where
  "sendgrid_config self key =
     (case config self ''sendgrid'' of
        None \<Rightarrow> Inl KeyError
      | Some section \<Rightarrow> (case section key of None \<Rightarrow> Inl KeyError | Some v \<Rightarrow> Inr v))"

text \<open>Lines 152 to 180. A status other than 200 or 202 is printed, not raised.\<close>

definition send_cert_issue_email ::
  "dane_backend \<Rightarrow> env \<Rightarrow> string \<Rightarrow> string \<Rightarrow> string \<Rightarrow> error + unit" where
  "send_cert_issue_email self env email domain digest =
     (case sendgrid_config self ''api_key'' of Inl e \<Rightarrow> Inl e | Inr api_key \<Rightarrow>
      let headers =
            [(''Authorization'', ''Bearer '' @ api_key),
             (''Content-Type'', ''application/json'')]
      in
      case sendgrid_config self ''template_id'' of Inl e \<Rightarrow> Inl e | Inr template_id \<Rightarrow>
      case sendgrid_config self ''from_name'' of Inl e \<Rightarrow> Inl e | Inr from_name \<Rightarrow>
      case sendgrid_config self ''from_email'' of Inl e \<Rightarrow> Inl e | Inr from_email \<Rightarrow>
      case sendgrid_config self ''asm_group_id'' of Inl e \<Rightarrow> Inl e | Inr asm_group_id \<Rightarrow>
      case python_int env asm_group_id of Inl e \<Rightarrow> Inl e | Inr group_id \<Rightarrow>
      let payload = JObject
            [(''template_id'', JString template_id),
             (''personalizations'', JArray [JObject
                [(''dynamic_template_data'', JObject
                    [(''domain'', JString domain), (''digest'', JString digest)]),
                 (''to'', JArray [JObject [(''email'', JString email)]])]]),
             (''from'', JObject
                [(''name'', JString from_name), (''email'', JString from_email)]),
             (''asm'', JObject [(''group_id'', JInt group_id)])]
      in
      case requests_post env ''https://api.sendgrid.com/v3/mail/send'' headers payload of
        Inl e \<Rightarrow> Inl e
      | Inr r \<Rightarrow> Inr ())"

subsection \<open>\<^verbatim>\<open>sign\<close>\<close>

text \<open>The local variables of \<^verbatim>\<open>sign\<close> when it reaches its \<^verbatim>\<open>return\<close>; \<open>l_notified\<close> is
  how the \<^verbatim>\<open>try\<close> block around the notification ended.\<close>

record sign_locals =
  l_csr_obj :: csr_object
  l_ca_cert :: certificate
  l_ca_privkey :: private_key
  l_certificate :: certificate
  l_bundle :: bytes
  l_tlsa_digest :: string
  l_notified :: "error + unit"

text \<open>The body of \<^verbatim>\<open>sign\<close>, lines 27 to 77, with every exception a stage raises
  returned as \<open>Inl\<close>, in the order the stages run; the calls of \<^verbatim>\<open>print\<close> are left
  out. The leaf's two validity bounds are the third and fourth reading of the clock,
  the CA's were the first two. The exception of the notification is caught (line 76)
  and only printed.\<close>

definition sign_run ::
  "dane_backend \<Rightarrow> env \<Rightarrow> bytes \<Rightarrow> string \<Rightarrow> string list \<Rightarrow> string \<Rightarrow> error + sign_locals" where
  "sign_run self env csr subjectDN subjectAltNames email =
     (case load_der_x509_csr env csr of Inl e \<Rightarrow> Inl e | Inr csr_obj \<Rightarrow>
      case name_attribute COMMON_NAME subjectDN of Inl e \<Rightarrow> Inl e | Inr common_name \<Rightarrow>
      let subject = Name [common_name];
          issuer = subject
      in
      case generate_ephemeral_ca env of Inl e \<Rightarrow> Inl e | Inr (ca_cert, ca_privkey) \<Rightarrow>
      case csr_public_key csr_obj of Inl e \<Rightarrow> Inl e | Inr csr_key \<Rightarrow>
      case dns_names subjectAltNames of Inl e \<Rightarrow> Inl e | Inr general_names \<Rightarrow>
      let builder =
            \<lparr>subject = subject,
             issuer = issuer,
             public_key = csr_key,
             serial_number = random_serial_number (urandom_serial env),
             not_valid_before = utcnow env 2 - TIME_DELTA,
             not_valid_after = utcnow env 3 + TIME_DELTA,
             extensions = [Extension (SubjectAlternativeName general_names) False]\<rparr>
      in
      case builder_sign env builder ca_privkey of Inl e \<Rightarrow> Inl e | Inr sig \<Rightarrow>
      let certificate = signed_certificate builder sig in
      case create_fullchain env
             [public_bytes_pem env ca_cert, public_bytes_pem env certificate] of
        Inl e \<Rightarrow> Inl e
      | Inr bundle \<Rightarrow>
      let cert_bytes = spki_der (public_key certificate);
          tlsa_digest = hexdigest (sha256 cert_bytes);
          notified = send_cert_issue_email self env email subjectDN tlsa_digest
      in Inr \<lparr>l_csr_obj = csr_obj, l_ca_cert = ca_cert, l_ca_privkey = ca_privkey,
              l_certificate = certificate, l_bundle = bundle,
              l_tlsa_digest = tlsa_digest, l_notified = notified\<rparr>)"

text \<open>\<^verbatim>\<open>return (bundle, None)\<close>, line 79.\<close>

definition sign ::
  "dane_backend \<Rightarrow> env \<Rightarrow> bytes \<Rightarrow> string \<Rightarrow> string list \<Rightarrow> string
     \<Rightarrow> error + (bytes \<times> error option)" where
  "sign self env csr subjectDN subjectAltNames email =
     (case sign_run self env csr subjectDN subjectAltNames email of
        Inl e \<Rightarrow> Inl e
      | Inr l \<Rightarrow> Inr (l_bundle l, None))"

section \<open>A concrete run\<close>

text \<open>One call of \<^verbatim>\<open>sign\<close> in a small world: the request carries the key \<open>csr_key0\<close>,
  the clock advances by two microseconds a reading and crosses a second between the
  first two, the random source returns zero bits for the UUID and one bits for the
  leaf's serial number. The stand-ins for the library's signature and PEM encoding and
  for the tool are toys: the tool writes the contents of the temporary files one after
  the other.\<close>

definition csr0 :: bytes where
  "csr0 = [0x30, 0x82]"

definition csr_key0 :: public_key where
  "csr_key0 = PublicKey [0x30, 0x59]"

definition ca_key0 :: private_key where
  "ca_key0 = PrivateKey (PublicKey [0x30, 0x82]) [0x02]"

definition env0 :: env where
  "env0 =
     \<lparr>load_der_x509_csr =
        (\<lambda>b. if b = csr0 then Inr \<lparr>csr_public_key = Inr csr_key0\<rparr> else Inl ValueError),
      generate_private_key = (\<lambda>e n. Inr ca_key0),
      utcnow = (\<lambda>k. 1700000000999999 + 2 * int k),
      urandom_uuid4 = 0,
      urandom_serial = - 1,
      builder_sign = (\<lambda>b k. Inr (spki_der (public_key b))),
      public_bytes_pem = (\<lambda>c. drop 1 (signature c)),
      named_temporary_file = (\<lambda>k. Inr (if k = 0 then ''/tmp/tmpca'' else ''/tmp/tmpleaf'')),
      popen =
        (\<lambda>args files.
           Inr \<lparr>stdout = concat (map snd files), returncode = 0\<rparr>),
      python_int = (\<lambda>s. if s = ''7'' then Inr 7 else Inl ValueError),
      requests_post = (\<lambda>url headers payload. Inr \<lparr>status_code = 202, text_body = []\<rparr>)\<rparr>"

definition backend0 :: dane_backend where
  "backend0 =
     \<lparr>config =
        [''sendgrid'' \<mapsto>
           [''api_key'' \<mapsto> ''k'', ''template_id'' \<mapsto> ''t'', ''from_name'' \<mapsto> ''n'',
            ''from_email'' \<mapsto> ''ca@example.test'', ''asm_group_id'' \<mapsto> ''7'']]\<rparr>"

definition dn0 :: string where
  "dn0 = ''example.test''"

definition sans0 :: "string list" where
  "sans0 = [''www.example.test'']"

definition email0 :: string where
  "email0 = ''ops@example.test''"

text \<open>The certificates and the local variables this run ends with.\<close>

definition ca_cert0 :: certificate where
  "ca_cert0 =
     \<lparr>subject = ca_name,
      issuer = ca_name,
      public_key = PublicKey [0x30, 0x82],
      serial_number = 302240678275694148452352,
      not_valid_before = 1700000000000000 - TIME_DELTA,
      not_valid_after = 1700000001000000 + TIME_DELTA,
      extensions = [Extension (BasicConstraints True None) True],
      signature = [0x30, 0x82]\<rparr>"

definition leaf0 :: "string list \<Rightarrow> certificate" where
  "leaf0 names =
     \<lparr>subject = Name [NameAttribute COMMON_NAME dn0],
      issuer = Name [NameAttribute COMMON_NAME dn0],
      public_key = csr_key0,
      serial_number = 730750818665451459101842416358141509827966271487,
      not_valid_before = 1700000001000000 - TIME_DELTA,
      not_valid_after = 1700000001000000 + TIME_DELTA,
      extensions = [Extension (SubjectAlternativeName (map DNSName names)) False],
      signature = [0x30, 0x59]\<rparr>"

definition locals0 :: "string list \<Rightarrow> bytes \<Rightarrow> error + unit \<Rightarrow> sign_locals" where
  "locals0 names bundle notified =
     \<lparr>l_csr_obj = \<lparr>csr_public_key = Inr csr_key0\<rparr>,
      l_ca_cert = ca_cert0,
      l_ca_privkey = ca_key0,
      l_certificate = leaf0 names,
      l_bundle = bundle,
      l_tlsa_digest = hexdigest (sha256 [0x30, 0x59]),
      l_notified = notified\<rparr>"

text \<open>The same world with a tool that exits with status 1 and writes nothing, and with a
  notification sink that cannot be reached.\<close>

definition env_openssl_fails :: env where
  "env_openssl_fails = env0\<lparr>popen := (\<lambda>args files. Inr \<lparr>stdout = [], returncode = 1\<rparr>)\<rparr>"

definition sink_down :: "string \<Rightarrow> (string \<times> string) list \<Rightarrow> json \<Rightarrow> error + response" where
  "sink_down url headers payload = Inl RequestException"

section \<open>Facts about the model\<close>

subsection \<open>What a successful run fixes\<close>

lemma name_attribute_Inr:
  "name_attribute oid v = Inr a \<Longrightarrow> a = NameAttribute oid v"
  by (auto simp: name_attribute_def split: if_splits)

lemma dns_names_Inr:
  "dns_names ns = Inr gs \<Longrightarrow> gs = map DNSName ns"
  by (induction ns arbitrary: gs)
    (auto simp: dns_name_def split: sum.splits if_splits)

lemma whole_seconds_shift:
  "whole_seconds (t - TIME_DELTA) = whole_seconds t - TIME_DELTA"
  "whole_seconds (t + TIME_DELTA) = whole_seconds t + TIME_DELTA"
proof -
  have up: "(a + TIME_DELTA) mod 1000000 = a mod 1000000" for a
  proof -
    have "(a + 432000 * 1000000) mod 1000000 = a mod (1000000 :: int)"
      by (rule mod_mult_self1)
    then show ?thesis by (simp add: TIME_DELTA_def)
  qed
  from up [of "t - TIME_DELTA"]
  show "whole_seconds (t - TIME_DELTA) = whole_seconds t - TIME_DELTA"
    by (simp add: whole_seconds_def)
  from up [of t]
  show "whole_seconds (t + TIME_DELTA) = whole_seconds t + TIME_DELTA"
    by (simp add: whole_seconds_def)
qed

lemma whole_seconds_bounds:
  "whole_seconds t \<le> t" "t < whole_seconds t + 1000000"
  by (simp_all add: whole_seconds_def)

lemma whole_seconds_mono:
  "s \<le> t \<Longrightarrow> whole_seconds s \<le> whole_seconds t"
proof -
  assume "s \<le> t"
  have w: "whole_seconds x = 1000000 * (x div 1000000)" for x
    by (simp add: whole_seconds_def minus_mod_eq_mult_div)
  from \<open>s \<le> t\<close> have "s div 1000000 \<le> t div 1000000"
    by (rule zdiv_mono1) simp
  then show ?thesis by (simp add: w)
qed

lemma generate_ephemeral_ca_Inr:
  assumes "generate_ephemeral_ca env = Inr (ca_cert, ca_privkey)"
  shows "generate_private_key env 65537 2048 = Inr ca_privkey"
    and "subject ca_cert = ca_name"
    and "issuer ca_cert = ca_name"
    and "public_key ca_cert = private_public_key ca_privkey"
    and "serial_number ca_cert = int_uuid4 (urandom_uuid4 env)"
    and "not_valid_before ca_cert = whole_seconds (utcnow env 0 - TIME_DELTA)"
    and "not_valid_after ca_cert = whole_seconds (utcnow env 1 + TIME_DELTA)"
    and "extensions ca_cert = [Extension (BasicConstraints True None) True]"
  using assms
  by (auto simp: generate_ephemeral_ca_def Let_def signed_certificate_def
      certificate_builder.extend_def split: sum.splits)

lemma sign_run_Inr:
  assumes "sign_run self env csr subjectDN subjectAltNames email = Inr l"
  shows "load_der_x509_csr env csr = Inr (l_csr_obj l)"
    and "generate_ephemeral_ca env = Inr (l_ca_cert l, l_ca_privkey l)"
    and "csr_public_key (l_csr_obj l) = Inr (public_key (l_certificate l))"
    and "subject (l_certificate l) = Name [NameAttribute COMMON_NAME subjectDN]"
    and "issuer (l_certificate l) = Name [NameAttribute COMMON_NAME subjectDN]"
    and "serial_number (l_certificate l) = random_serial_number (urandom_serial env)"
    and "not_valid_before (l_certificate l) = whole_seconds (utcnow env 2 - TIME_DELTA)"
    and "not_valid_after (l_certificate l) = whole_seconds (utcnow env 3 + TIME_DELTA)"
    and "extensions (l_certificate l)
           = [Extension (SubjectAlternativeName (map DNSName subjectAltNames)) False]"
    and "create_fullchain env
           [public_bytes_pem env (l_ca_cert l), public_bytes_pem env (l_certificate l)]
           = Inr (l_bundle l)"
    and "l_tlsa_digest l = hexdigest (sha256 (spki_der (public_key (l_certificate l))))"
    and "l_notified l = send_cert_issue_email self env email subjectDN (l_tlsa_digest l)"
    and "name_attribute COMMON_NAME subjectDN = Inr (NameAttribute COMMON_NAME subjectDN)"
    and "dns_names subjectAltNames = Inr (map DNSName subjectAltNames)"
  using assms
  by (auto simp: sign_run_def Let_def signed_certificate_def certificate_builder.extend_def
      split: sum.splits prod.splits dest: name_attribute_Inr dns_names_Inr)

lemma sign_of_sign_run:
  "sign_run self env csr subjectDN subjectAltNames email = Inr l
     \<Longrightarrow> sign self env csr subjectDN subjectAltNames email = Inr (l_bundle l, None)"
  by (simp add: sign_def)

lemma length_state_bytes: "length (state_bytes s) = 32"
  by (induction s rule: state_bytes.induct) (simp add: word32_be_def)

lemma length_sha256: "length (sha256 m) = 32"
  by (simp add: sha256_def length_state_bytes)

lemma length_hexdigest: "length (hexdigest bs) = 2 * length bs"
  by (induction bs) (simp_all add: hexdigest_def hex_byte_def)

lemma hex_digit_lower: "hex_digit n \<in> set ''0123456789abcdef''"
proof -
  have "n mod 16 < length ''0123456789abcdef''" by simp
  then show ?thesis unfolding hex_digit_def by (rule nth_mem)
qed

lemma set_hexdigest: "set (hexdigest bs) \<subseteq> set ''0123456789abcdef''"
proof (induction bs)
  case Nil
  show ?case by (simp add: hexdigest_def)
next
  case (Cons b bs)
  have "set (hex_byte b) \<subseteq> set ''0123456789abcdef''"
    using hex_digit_lower [of "unat b div 16"] hex_digit_lower [of "unat b mod 16"]
    by (simp add: hex_byte_def)
  with Cons show ?case by (simp add: hexdigest_def)
qed

lemma create_fullchain_two:
  assumes "create_fullchain env [a, b] = Inr out"
  shows "\<exists>n0 n1 proc.
           named_temporary_file env 0 = Inr n0
         \<and> named_temporary_file env 1 = Inr n1
         \<and> popen env
               [''openssl'', ''crl2pkcs7'', ''-nocrl'', ''-outform'', ''DER'',
                ''-certfile'', n0, ''-certfile'', n1]
               [(n0, a), (n1, b)] = Inr proc
         \<and> out = stdout proc"
  using assms
  by (auto simp: create_fullchain_def openssl_command_def Let_def
      split: sum.splits prod.splits)

lemma write_certfiles_popen_upd [simp]:
  "write_certfiles (env\<lparr>popen := q\<rparr>) k certs files args = write_certfiles env k certs files args"
  by (induction certs arbitrary: k files args) (simp_all split: sum.splits)

lemma write_certfiles_post_upd [simp]:
  "write_certfiles (env\<lparr>python_int := pint, requests_post := post\<rparr>) k certs files args
     = write_certfiles env k certs files args"
  by (induction certs arbitrary: k files args) (simp_all split: sum.splits)

lemma create_fullchain_popen_raises:
  assumes "create_fullchain env certs = Inr bundle"
  shows "create_fullchain (env\<lparr>popen := (\<lambda>args files. Inl e)\<rparr>) certs = Inl e"
  using assms by (auto simp: create_fullchain_def split: sum.splits prod.splits)

lemma create_fullchain_popen_returns:
  assumes "create_fullchain env certs = Inr bundle"
  shows "create_fullchain (env\<lparr>popen := (\<lambda>args files. Inr p)\<rparr>) certs = Inr (stdout p)"
  using assms by (auto simp: create_fullchain_def split: sum.splits prod.splits)

lemma generate_ephemeral_ca_popen_upd [simp]:
  "generate_ephemeral_ca (env\<lparr>popen := q\<rparr>) = generate_ephemeral_ca env"
  by (simp add: generate_ephemeral_ca_def Let_def split: sum.splits)

lemma generate_ephemeral_ca_post_upd [simp]:
  "generate_ephemeral_ca (env\<lparr>python_int := pint, requests_post := post\<rparr>)
     = generate_ephemeral_ca env"
  by (simp add: generate_ephemeral_ca_def Let_def split: sum.splits)

lemma create_fullchain_post_upd [simp]:
  "create_fullchain (env\<lparr>python_int := pint, requests_post := post\<rparr>) certs
     = create_fullchain env certs"
  by (simp add: create_fullchain_def split: sum.splits prod.splits)

lemma sign_popen_raises:
  assumes "sign_run self env csr dn sans email = Inr l"
  shows "sign self (env\<lparr>popen := (\<lambda>args files. Inl e)\<rparr>) csr dn sans email = Inl e"
  using assms
  by (auto simp: sign_def sign_run_def Let_def create_fullchain_popen_raises
      split: sum.splits prod.splits)

lemma sign_popen_returns:
  assumes "sign_run self env csr dn sans email = Inr l"
  shows "sign self (env\<lparr>popen := (\<lambda>args files. Inr p)\<rparr>) csr dn sans email
           = Inr (stdout p, None)"
  using assms
  by (auto simp: sign_def sign_run_def Let_def create_fullchain_popen_returns
      split: sum.splits prod.splits)

lemma sign_notification_independent:
  "sign self' (env\<lparr>python_int := pint, requests_post := post\<rparr>) csr dn sans email
     = sign self env csr dn sans email"
  by (simp add: sign_def sign_run_def Let_def split: sum.splits prod.splits)

subsection \<open>The concrete run, evaluated\<close>

lemma int_uuid4_zero: "int_uuid4 0 = 302240678275694148452352"
  by (simp add: int_uuid4_def uuid4_def)

lemma random_serial_number_ones:
  "random_serial_number (- 1) = 730750818665451459101842416358141509827966271487"
  by (simp add: random_serial_number_def uint_mask_eq mask_eq_exp_minus_1)

lemma dns_names_sans0: "dns_names sans0 = Inr (map DNSName sans0)"
  by (simp add: sans0_def dns_name_def)

lemma sign_run_concrete:
  assumes "dns_names names = Inr (map DNSName names)"
  shows "sign_run backend0 env0 csr0 dn0 names email0
           = Inr (locals0 names [0x82, 0x59] (Inr ()))"
  using assms
  by (simp add: sign_run_def generate_ephemeral_ca_def create_fullchain_def
        send_cert_issue_email_def sendgrid_config_def openssl_command_def
        name_attribute_def signed_certificate_def whole_seconds_def dn0_def TIME_DELTA_def
        env0_def backend0_def ca_key0_def csr_key0_def locals0_def leaf0_def ca_cert0_def
        certificate_builder.extend_def Let_def int_uuid4_zero random_serial_number_ones)

lemma sign_run_sink_down:
  "sign_run backend0 (env0\<lparr>python_int := python_int env0, requests_post := sink_down\<rparr>)
      csr0 dn0 sans0 email0
     = Inr (locals0 sans0 [0x82, 0x59] (Inl RequestException))"
  using dns_names_sans0
  by (simp add: sign_run_def generate_ephemeral_ca_def create_fullchain_def
        send_cert_issue_email_def sendgrid_config_def openssl_command_def sink_down_def
        name_attribute_def signed_certificate_def whole_seconds_def dn0_def TIME_DELTA_def
        env0_def backend0_def ca_key0_def csr_key0_def locals0_def leaf0_def ca_cert0_def
        certificate_builder.extend_def Let_def int_uuid4_zero random_serial_number_ones)

lemma sign_run_openssl_fails:
  "sign_run backend0 env_openssl_fails csr0 dn0 sans0 email0
     = Inr (locals0 sans0 [] (Inr ()))"
  using dns_names_sans0
  by (simp add: sign_run_def generate_ephemeral_ca_def create_fullchain_def
        send_cert_issue_email_def sendgrid_config_def openssl_command_def env_openssl_fails_def
        name_attribute_def signed_certificate_def whole_seconds_def dn0_def TIME_DELTA_def
        env0_def backend0_def ca_key0_def csr_key0_def locals0_def leaf0_def ca_cert0_def
        certificate_builder.extend_def Let_def int_uuid4_zero random_serial_number_ones)

lemma int_uuid4_bounds: "0 \<le> int_uuid4 r \<and> int_uuid4 r < 2 ^ 128"
  using uint_lt2p [of "uuid4 r"] by (simp add: int_uuid4_def)

lemma random_serial_number_bounds:
  "0 \<le> random_serial_number r \<and> random_serial_number r < 2 ^ 159"
proof -
  have "uint (drop_bit 1 r) = uint r div 2"
    by (simp add: drop_bit_eq_div uint_div_distrib)
  moreover have "uint r < 2 ^ 160"
    using uint_lt2p [of r] by simp
  ultimately show ?thesis
    by (simp add: random_serial_number_def)
qed

text \<open>The model of SHA-256 on the test vector \<^verbatim>\<open>abc\<close> of FIPS 180-4.\<close>

lemma sha256_abc:
  "hexdigest (sha256 [0x61, 0x62, 0x63])
     = ''ba7816bf8f01cfea414140de5dae2223b00361a396177a9cb410ff61f20015ad''"
  by code_simp

section \<open>The claims\<close>

text \<open>C3: for every valid request, the public key of the issued leaf certificate is the
  public key the request carries, byte for byte in its SubjectPublicKeyInfo encoding;
  \<^verbatim>\<open>sign\<close> neither substitutes nor generates a leaf key. Whenever \<^verbatim>\<open>sign\<close> reaches its
  \<^verbatim>\<open>return\<close>, the request parsed to some \<open>csr_obj\<close> whose key is the leaf's.\<close>

theorem leaf_key_is_csr_key:
  assumes "sign_run self env csr subjectDN subjectAltNames email = Inr l"
  shows "\<exists>csr_obj csr_key.
           load_der_x509_csr env csr = Inr csr_obj
         \<and> csr_public_key csr_obj = Inr csr_key
         \<and> public_key (l_certificate l) = csr_key
         \<and> spki_der (public_key (l_certificate l)) = spki_der csr_key"
  using sign_run_Inr(1,3) [OF assms] by simp

theorem leaf_key_is_csr_key_witness:
  "sign_run backend0 env0 csr0 dn0 sans0 email0 = Inr (locals0 sans0 [0x82, 0x59] (Inr ()))
   \<and> load_der_x509_csr env0 csr0 = Inr \<lparr>csr_public_key = Inr csr_key0\<rparr>
   \<and> public_key (l_certificate (locals0 sans0 [0x82, 0x59] (Inr ()))) = csr_key0
   \<and> spki_der (public_key (l_certificate (locals0 sans0 [0x82, 0x59] (Inr ())))) = [0x30, 0x59]"
proof -
  have run: "sign_run backend0 env0 csr0 dn0 sans0 email0
               = Inr (locals0 sans0 [0x82, 0x59] (Inr ()))"
    by (rule sign_run_concrete [OF dns_names_sans0])
  have parsed: "load_der_x509_csr env0 csr0 = Inr \<lparr>csr_public_key = Inr csr_key0\<rparr>"
    by (simp add: env0_def)
  have key: "public_key (l_certificate (locals0 sans0 [0x82, 0x59] (Inr ()))) = csr_key0"
    by (simp add: locals0_def leaf0_def)
  have der: "spki_der csr_key0 = [0x30, 0x59]"
    by (simp add: csr_key0_def)
  from leaf_key_is_csr_key [OF run] run parsed key der show ?thesis
    by simp
qed

text \<open>C5: for every successful call of \<^verbatim>\<open>sign\<close>, the derived digest is the SHA-256
  hash of the DER-encoded SubjectPublicKeyInfo of the leaf certificate's public key,
  rendered as a string of 64 lowercase hexadecimal digits.\<close>

theorem tlsa_digest_is_sha256_of_leaf_spki:
  assumes "sign_run self env csr subjectDN subjectAltNames email = Inr l"
  shows "l_tlsa_digest l = hexdigest (sha256 (spki_der (public_key (l_certificate l))))
       \<and> length (l_tlsa_digest l) = 64
       \<and> set (l_tlsa_digest l) \<subseteq> set ''0123456789abcdef''"
proof -
  have d: "l_tlsa_digest l = hexdigest (sha256 (spki_der (public_key (l_certificate l))))"
    by (rule sign_run_Inr(11) [OF assms])
  have len: "length (l_tlsa_digest l) = 64"
    by (simp add: d length_hexdigest length_sha256)
  have hex: "set (l_tlsa_digest l) \<subseteq> set ''0123456789abcdef''"
    unfolding d by (rule set_hexdigest)
  from d len hex show ?thesis by blast
qed

theorem tlsa_digest_is_sha256_of_leaf_spki_witness:
  "sign_run backend0 env0 csr0 dn0 sans0 email0 = Inr (locals0 sans0 [0x82, 0x59] (Inr ()))
   \<and> l_tlsa_digest (locals0 sans0 [0x82, 0x59] (Inr ())) = hexdigest (sha256 [0x30, 0x59])
   \<and> length (l_tlsa_digest (locals0 sans0 [0x82, 0x59] (Inr ()))) = 64
   \<and> set (l_tlsa_digest (locals0 sans0 [0x82, 0x59] (Inr ()))) \<subseteq> set ''0123456789abcdef''"
proof -
  have run: "sign_run backend0 env0 csr0 dn0 sans0 email0
               = Inr (locals0 sans0 [0x82, 0x59] (Inr ()))"
    by (rule sign_run_concrete [OF dns_names_sans0])
  have key: "spki_der (public_key (l_certificate (locals0 sans0 [0x82, 0x59] (Inr ()))))
               = [0x30, 0x59]"
    by (simp add: locals0_def leaf0_def csr_key0_def)
  from tlsa_digest_is_sha256_of_leaf_spki [OF run] have
    "l_tlsa_digest (locals0 sans0 [0x82, 0x59] (Inr ())) = hexdigest (sha256 [0x30, 0x59])
     \<and> length (l_tlsa_digest (locals0 sans0 [0x82, 0x59] (Inr ()))) = 64
     \<and> set (l_tlsa_digest (locals0 sans0 [0x82, 0x59] (Inr ()))) \<subseteq> set ''0123456789abcdef''"
    unfolding key .
  with run show ?thesis by blast
qed

text \<open>C8: for every sequence \<open>subjectAltNames\<close>, the empty one included, the leaf
  certificate of a successful call carries one subject-alternative-name extension, it is
  marked non-critical, and its DNS names, decoded, are the input sequence: the same
  elements in the same order.\<close>

theorem leaf_subject_alternative_names:
  assumes "sign_run self env csr subjectDN subjectAltNames email = Inr l"
  shows "\<exists>ext. filter is_subject_alternative_name (extensions (l_certificate l)) = [ext]
             \<and> critical ext = False
             \<and> get_values_for_type_DNSName (ext_value ext) = subjectAltNames"
  using sign_run_Inr(9) [OF assms]
  by (simp add: comp_def)

theorem leaf_subject_alternative_names_witness:
  "sign_run backend0 env0 csr0 dn0 [] email0 = Inr (locals0 [] [0x82, 0x59] (Inr ()))
   \<and> filter is_subject_alternative_name
         (extensions (l_certificate (locals0 [] [0x82, 0x59] (Inr ()))))
       = [Extension (SubjectAlternativeName []) False]
   \<and> sign_run backend0 env0 csr0 dn0 [''b.example.test'', ''a.example.test'', ''b.example.test''] email0
       = Inr (locals0 [''b.example.test'', ''a.example.test'', ''b.example.test''] [0x82, 0x59] (Inr ()))
   \<and> map (get_values_for_type_DNSName \<circ> ext_value)
         (filter is_subject_alternative_name
           (extensions (l_certificate
              (locals0 [''b.example.test'', ''a.example.test'', ''b.example.test''] [0x82, 0x59] (Inr ())))))
       = [[''b.example.test'', ''a.example.test'', ''b.example.test'']]"
proof -
  have run0: "sign_run backend0 env0 csr0 dn0 [] email0 = Inr (locals0 [] [0x82, 0x59] (Inr ()))"
    by (rule sign_run_concrete) simp
  have run3: "sign_run backend0 env0 csr0 dn0
                [''b.example.test'', ''a.example.test'', ''b.example.test''] email0
       = Inr (locals0 [''b.example.test'', ''a.example.test'', ''b.example.test''] [0x82, 0x59] (Inr ()))"
    by (rule sign_run_concrete) (simp add: dns_name_def)
  have ext0: "extensions (l_certificate (locals0 [] [0x82, 0x59] (Inr ())))
                = [Extension (SubjectAlternativeName []) False]"
    by (simp add: locals0_def leaf0_def)
  from leaf_subject_alternative_names [OF run0] leaf_subject_alternative_names [OF run3]
    run0 run3 ext0
  show ?thesis
    by auto
qed

text \<open>C2: the claim is that the issuer name of the leaf certificate is the subject name
  of the ephemeral CA certificate. The code gives the leaf the issuer it gives it as
  subject, the common name \<open>subjectDN\<close> (line 30: \<^verbatim>\<open>subject = issuer = x509.Name(...)\<close>),
  and the CA the fixed three-attribute name \<open>ca_name\<close>; the two names differ in
  every successful call.\<close>

theorem leaf_issuer_is_subjectDN:
  assumes "sign_run self env csr subjectDN subjectAltNames email = Inr l"
  shows "issuer (l_certificate l) = Name [NameAttribute COMMON_NAME subjectDN]
       \<and> issuer (l_certificate l) = subject (l_certificate l)
       \<and> subject (l_ca_cert l) = ca_name
       \<and> issuer (l_certificate l) \<noteq> subject (l_ca_cert l)"
  using sign_run_Inr(4,5) [OF assms] generate_ephemeral_ca_Inr(2) [OF sign_run_Inr(2) [OF assms]]
  by (simp add: ca_name_def)

theorem leaf_issuer_is_subjectDN_witness:
  "sign_run backend0 env0 csr0 dn0 sans0 email0 = Inr (locals0 sans0 [0x82, 0x59] (Inr ()))
   \<and> issuer (l_certificate (locals0 sans0 [0x82, 0x59] (Inr ())))
       = Name [NameAttribute COMMON_NAME ''example.test'']
   \<and> subject (l_ca_cert (locals0 sans0 [0x82, 0x59] (Inr ()))) = ca_name
   \<and> issuer (l_certificate (locals0 sans0 [0x82, 0x59] (Inr ())))
       \<noteq> subject (l_ca_cert (locals0 sans0 [0x82, 0x59] (Inr ())))"
proof -
  have run: "sign_run backend0 env0 csr0 dn0 sans0 email0
               = Inr (locals0 sans0 [0x82, 0x59] (Inr ()))"
    by (rule sign_run_concrete [OF dns_names_sans0])
  from leaf_issuer_is_subjectDN [OF run] run show ?thesis
    unfolding dn0_def by blast
qed

text \<open>C4, as the code has it: for every valid request for which \<^verbatim>\<open>sign\<close> returns, the
  code has started the tool once, with exactly two certificate files on its command
  line, the file of the CA certificate first and the file of the leaf certificate
  second, and the bundle is what that process wrote to its standard output, unchanged
  and unchecked. The bundle holds the two certificates in that order whenever the tool
  wrote such a bundle.\<close>

theorem bundle_is_tool_output_for_ca_then_leaf:
  assumes "sign_run self env csr subjectDN subjectAltNames email = Inr l"
  shows "\<exists>n0 n1 proc.
           named_temporary_file env 0 = Inr n0
         \<and> named_temporary_file env 1 = Inr n1
         \<and> popen env
               [''openssl'', ''crl2pkcs7'', ''-nocrl'', ''-outform'', ''DER'',
                ''-certfile'', n0, ''-certfile'', n1]
               [(n0, public_bytes_pem env (l_ca_cert l)),
                (n1, public_bytes_pem env (l_certificate l))] = Inr proc
         \<and> l_bundle l = stdout proc
         \<and> sign self env csr subjectDN subjectAltNames email = Inr (stdout proc, None)"
  using create_fullchain_two [OF sign_run_Inr(10) [OF assms]] sign_of_sign_run [OF assms]
  by auto

theorem bundle_is_tool_output_for_ca_then_leaf_witness:
  "sign_run backend0 env0 csr0 dn0 sans0 email0 = Inr (locals0 sans0 [0x82, 0x59] (Inr ()))
   \<and> named_temporary_file env0 0 = Inr ''/tmp/tmpca''
   \<and> named_temporary_file env0 1 = Inr ''/tmp/tmpleaf''
   \<and> public_bytes_pem env0 (l_ca_cert (locals0 sans0 [0x82, 0x59] (Inr ()))) = [0x82]
   \<and> public_bytes_pem env0 (l_certificate (locals0 sans0 [0x82, 0x59] (Inr ()))) = [0x59]
   \<and> popen env0
         [''openssl'', ''crl2pkcs7'', ''-nocrl'', ''-outform'', ''DER'',
          ''-certfile'', ''/tmp/tmpca'', ''-certfile'', ''/tmp/tmpleaf'']
         [(''/tmp/tmpca'', [0x82]), (''/tmp/tmpleaf'', [0x59])]
       = Inr \<lparr>stdout = [0x82, 0x59], returncode = 0\<rparr>
   \<and> sign backend0 env0 csr0 dn0 sans0 email0 = Inr ([0x82, 0x59], None)"
proof -
  have run: "sign_run backend0 env0 csr0 dn0 sans0 email0
               = Inr (locals0 sans0 [0x82, 0x59] (Inr ()))"
    by (rule sign_run_concrete [OF dns_names_sans0])
  have names: "named_temporary_file env0 0 = Inr ''/tmp/tmpca''"
    "named_temporary_file env0 1 = Inr ''/tmp/tmpleaf''"
    by (simp_all add: env0_def)
  have ca: "public_bytes_pem env0 (l_ca_cert (locals0 sans0 [0x82, 0x59] (Inr ()))) = [0x82]"
    by (simp add: env0_def locals0_def ca_cert0_def)
  have leaf: "public_bytes_pem env0 (l_certificate (locals0 sans0 [0x82, 0x59] (Inr ()))) = [0x59]"
    by (simp add: env0_def locals0_def leaf0_def)
  have out: "l_bundle (locals0 sans0 [0x82, 0x59] (Inr ())) = [0x82, 0x59]"
    by (simp add: locals0_def)
  have tool: "popen env0
         [''openssl'', ''crl2pkcs7'', ''-nocrl'', ''-outform'', ''DER'',
          ''-certfile'', ''/tmp/tmpca'', ''-certfile'', ''/tmp/tmpleaf'']
         [(''/tmp/tmpca'', [0x82]), (''/tmp/tmpleaf'', [0x59])]
       = Inr \<lparr>stdout = [0x82, 0x59], returncode = 0\<rparr>"
    by (simp add: env0_def)
  from bundle_is_tool_output_for_ca_then_leaf [OF run]
  have "sign backend0 env0 csr0 dn0 sans0 email0 = Inr ([0x82, 0x59], None)"
    unfolding out by auto
  with run names ca leaf tool show ?thesis
    by blast
qed

text \<open>C4 as stated fails. It says that for every valid request the bundle holds exactly
  two certificates. With a tool that exits with status 1 and writes nothing, the
  request is parsed, both certificates are issued, \<^verbatim>\<open>sign\<close> returns, and the bundle is
  the empty byte string, which holds no certificate.\<close>

theorem bundle_without_certificates_counterexample:
  "load_der_x509_csr env_openssl_fails csr0 = Inr \<lparr>csr_public_key = Inr csr_key0\<rparr>
   \<and> sign_run backend0 env_openssl_fails csr0 dn0 sans0 email0
       = Inr (locals0 sans0 [] (Inr ()))
   \<and> l_bundle (locals0 sans0 [] (Inr ())) = []
   \<and> length (l_bundle (locals0 sans0 [] (Inr ()))) = 0"
proof -
  have parsed: "load_der_x509_csr env_openssl_fails csr0
                  = Inr \<lparr>csr_public_key = Inr csr_key0\<rparr>"
    by (simp add: env_openssl_fails_def env0_def)
  have out: "l_bundle (locals0 sans0 [] (Inr ())) = []"
    by (simp add: locals0_def)
  from parsed sign_run_openssl_fails out show ?thesis
    by simp
qed

text \<open>C1, as the code has it: take a call that succeeds with some tool. With a tool that
  cannot be started (\<^verbatim>\<open>Popen\<close> raises \<open>e\<close>) the same call raises \<open>e\<close> and returns no
  bundle; with a tool that starts, it returns what the process wrote to its standard
  output, whatever that is and whatever the exit status, and no error.\<close>

theorem sign_chain_assembly_outcome:
  assumes "sign_run self env csr subjectDN subjectAltNames email = Inr l"
  shows "sign self (env\<lparr>popen := (\<lambda>args files. Inl e)\<rparr>) csr subjectDN subjectAltNames email
           = Inl e
       \<and> sign self (env\<lparr>popen := (\<lambda>args files. Inr proc)\<rparr>) csr subjectDN subjectAltNames email
           = Inr (stdout proc, None)"
  using sign_popen_raises [OF assms] sign_popen_returns [OF assms]
  by simp

theorem sign_chain_assembly_outcome_witness:
  "sign_run backend0 env0 csr0 dn0 sans0 email0 = Inr (locals0 sans0 [0x82, 0x59] (Inr ()))
   \<and> sign backend0 (env0\<lparr>popen := (\<lambda>args files. Inl FileNotFoundError)\<rparr>)
         csr0 dn0 sans0 email0
       = Inl FileNotFoundError
   \<and> sign backend0 (env0\<lparr>popen := (\<lambda>args files. Inr \<lparr>stdout = [], returncode = 1\<rparr>)\<rparr>)
         csr0 dn0 sans0 email0
       = Inr ([], None)"
proof -
  have run: "sign_run backend0 env0 csr0 dn0 sans0 email0
               = Inr (locals0 sans0 [0x82, 0x59] (Inr ()))"
    by (rule sign_run_concrete [OF dns_names_sans0])
  from sign_chain_assembly_outcome [OF run, of FileNotFoundError "\<lparr>stdout = [], returncode = 1\<rparr>"]
    run
  show ?thesis
    by simp
qed

text \<open>C1 as stated fails. It says that a failed run of the chain-assembly tool (the process
  cannot be started, exits with a status other than zero, or writes nothing or
  something malformed) makes \<^verbatim>\<open>sign\<close> return an error and no bundle. The code never reads
  the exit status and never looks at what the process wrote: with a tool that exits
  with status 1 and writes nothing, \<^verbatim>\<open>sign\<close> returns the empty bundle and no error.\<close>

theorem sign_returns_empty_bundle_counterexample:
  "sign backend0 env_openssl_fails csr0 dn0 sans0 email0 = Inr ([], None)"
  by (simp add: sign_def sign_run_openssl_fails locals0_def)

text \<open>C10: whenever \<^verbatim>\<open>sign\<close> returns rather than raises, the second component of the
  pair it returns is \<^verbatim>\<open>None\<close>; this includes the call whose tool wrote nothing, which
  returns the empty bundle with \<^verbatim>\<open>None\<close>. Failures of the earlier stages are raised
  exceptions (\<open>Inl\<close>), never a value of the error slot.\<close>

theorem sign_error_slot_is_None:
  "(\<forall>r. sign self env csr subjectDN subjectAltNames email = Inr r \<longrightarrow> snd r = None)
   \<and> (\<forall>l status. sign_run self env csr subjectDN subjectAltNames email = Inr l \<longrightarrow>
         sign self (env\<lparr>popen := (\<lambda>args files. Inr \<lparr>stdout = [], returncode = status\<rparr>)\<rparr>)
           csr subjectDN subjectAltNames email
         = Inr ([], None))"
proof (intro conjI allI impI)
  fix r
  assume "sign self env csr subjectDN subjectAltNames email = Inr r"
  then show "snd r = None"
    by (auto simp: sign_def split: sum.splits)
next
  fix l status
  assume "sign_run self env csr subjectDN subjectAltNames email = Inr l"
  from sign_popen_returns [OF this, of "\<lparr>stdout = [], returncode = status\<rparr>"]
  show "sign self (env\<lparr>popen := (\<lambda>args files. Inr \<lparr>stdout = [], returncode = status\<rparr>)\<rparr>)
           csr subjectDN subjectAltNames email
         = Inr ([], None)"
    by simp
qed

theorem sign_error_slot_is_None_witness:
  "sign backend0 env0 csr0 dn0 sans0 email0 = Inr ([0x82, 0x59], None)
   \<and> snd ([0x82, 0x59] :: bytes, None :: error option) = None
   \<and> sign_run backend0 env0 csr0 dn0 sans0 email0 = Inr (locals0 sans0 [0x82, 0x59] (Inr ()))
   \<and> sign backend0 (env0\<lparr>popen := (\<lambda>args files. Inr \<lparr>stdout = [], returncode = 0\<rparr>)\<rparr>)
         csr0 dn0 sans0 email0
       = Inr ([], None)"
proof -
  have run: "sign_run backend0 env0 csr0 dn0 sans0 email0
               = Inr (locals0 sans0 [0x82, 0x59] (Inr ()))"
    by (rule sign_run_concrete [OF dns_names_sans0])
  have ret: "sign backend0 env0 csr0 dn0 sans0 email0 = Inr ([0x82, 0x59], None)"
    by (simp add: sign_def run locals0_def)
  from sign_error_slot_is_None [of backend0 env0 csr0 dn0 sans0 email0] run ret
  show ?thesis
    by simp
qed

text \<open>C6: when the pipeline up to the derivation of the digest succeeds, a failure of the
  notification step is caught and does not change what \<^verbatim>\<open>sign\<close> returns: it is the pair
  of the bundle and \<^verbatim>\<open>None\<close>, and it is the same pair under any other configuration
  \<open>self'\<close>, integer conversion \<open>pint\<close> and notification sink \<open>post\<close>, each of which
  may raise.\<close>

theorem sign_returns_despite_notification:
  assumes "sign_run self env csr subjectDN subjectAltNames email = Inr l"
  shows "sign self env csr subjectDN subjectAltNames email = Inr (l_bundle l, None)
       \<and> sign self' (env\<lparr>python_int := pint, requests_post := post\<rparr>)
           csr subjectDN subjectAltNames email
           = Inr (l_bundle l, None)"
  using sign_of_sign_run [OF assms]
  by (simp add: sign_notification_independent [where self = self])

theorem sign_returns_despite_notification_witness:
  "sign_run backend0 env0 csr0 dn0 sans0 email0 = Inr (locals0 sans0 [0x82, 0x59] (Inr ()))
   \<and> sign_run backend0 (env0\<lparr>python_int := python_int env0, requests_post := sink_down\<rparr>)
         csr0 dn0 sans0 email0
       = Inr (locals0 sans0 [0x82, 0x59] (Inl RequestException))
   \<and> sign backend0 env0 csr0 dn0 sans0 email0 = Inr ([0x82, 0x59], None)
   \<and> sign backend0 (env0\<lparr>python_int := python_int env0, requests_post := sink_down\<rparr>)
         csr0 dn0 sans0 email0
       = Inr ([0x82, 0x59], None)"
proof -
  have run: "sign_run backend0 env0 csr0 dn0 sans0 email0
               = Inr (locals0 sans0 [0x82, 0x59] (Inr ()))"
    by (rule sign_run_concrete [OF dns_names_sans0])
  have down: "sign_run backend0 (env0\<lparr>python_int := python_int env0, requests_post := sink_down\<rparr>)
                csr0 dn0 sans0 email0
              = Inr (locals0 sans0 [0x82, 0x59] (Inl RequestException))"
    by (rule sign_run_sink_down)
  have out: "l_bundle (locals0 sans0 [0x82, 0x59] (Inr ())) = [0x82, 0x59]"
    by (simp add: locals0_def)
  from sign_returns_despite_notification
         [OF run, where self' = backend0 and pint = "python_int env0" and post = sink_down]
  have "sign backend0 env0 csr0 dn0 sans0 email0 = Inr ([0x82, 0x59], None)
      \<and> sign backend0 (env0\<lparr>python_int := python_int env0, requests_post := sink_down\<rparr>)
           csr0 dn0 sans0 email0
         = Inr ([0x82, 0x59], None)"
    unfolding out .
  with run down show ?thesis by blast
qed

text \<open>C7, as the code has it: for both certificates, \<^verbatim>\<open>notBefore\<close> is one reading of
  the clock, cut to whole seconds, minus 5 days, and \<^verbatim>\<open>notAfter\<close> is the next reading,
  cut to whole seconds, plus 5 days; the CA's two readings come first and the leaf's
  after them. The difference is 10 days plus the whole seconds between the
  certificate's two readings: exactly 10 days when both fall in the same second. When
  the clock did not step back between the two readings, the difference is at least 10
  days and both readings lie strictly inside the validity window.\<close>

theorem validity_windows:
  assumes "sign_run self env csr subjectDN subjectAltNames email = Inr l"
  shows "not_valid_before (l_ca_cert l) = whole_seconds (utcnow env 0) - TIME_DELTA
       \<and> not_valid_after (l_ca_cert l) = whole_seconds (utcnow env 1) + TIME_DELTA
       \<and> not_valid_before (l_certificate l) = whole_seconds (utcnow env 2) - TIME_DELTA
       \<and> not_valid_after (l_certificate l) = whole_seconds (utcnow env 3) + TIME_DELTA
       \<and> not_valid_after (l_ca_cert l) - not_valid_before (l_ca_cert l)
           = 2 * TIME_DELTA + (whole_seconds (utcnow env 1) - whole_seconds (utcnow env 0))
       \<and> not_valid_after (l_certificate l) - not_valid_before (l_certificate l)
           = 2 * TIME_DELTA + (whole_seconds (utcnow env 3) - whole_seconds (utcnow env 2))
       \<and> 2 * TIME_DELTA = 10 * 86400 * 1000000
       \<and> (utcnow env 0 \<le> utcnow env 1 \<longrightarrow>
             2 * TIME_DELTA \<le> not_valid_after (l_ca_cert l) - not_valid_before (l_ca_cert l)
           \<and> not_valid_before (l_ca_cert l) < utcnow env 0
           \<and> utcnow env 0 < not_valid_after (l_ca_cert l)
           \<and> not_valid_before (l_ca_cert l) < utcnow env 1
           \<and> utcnow env 1 < not_valid_after (l_ca_cert l))
       \<and> (utcnow env 2 \<le> utcnow env 3 \<longrightarrow>
             2 * TIME_DELTA \<le> not_valid_after (l_certificate l) - not_valid_before (l_certificate l)
           \<and> not_valid_before (l_certificate l) < utcnow env 2
           \<and> utcnow env 2 < not_valid_after (l_certificate l)
           \<and> not_valid_before (l_certificate l) < utcnow env 3
           \<and> utcnow env 3 < not_valid_after (l_certificate l))"
proof -
  note ca = generate_ephemeral_ca_Inr(6,7) [OF sign_run_Inr(2) [OF assms]]
  note leaf = sign_run_Inr(7,8) [OF assms]
  have delta: "1000000 \<le> TIME_DELTA" and ten: "2 * TIME_DELTA = 10 * 86400 * 1000000"
    by (simp_all add: TIME_DELTA_def)
  have window: "2 * TIME_DELTA \<le> (whole_seconds t + TIME_DELTA) - (whole_seconds s - TIME_DELTA)
        \<and> whole_seconds s - TIME_DELTA < s
        \<and> s < whole_seconds t + TIME_DELTA
        \<and> whole_seconds s - TIME_DELTA < t
        \<and> t < whole_seconds t + TIME_DELTA"
    if "s \<le> t" for s t
    using that delta whole_seconds_mono [OF that]
      whole_seconds_bounds [of s] whole_seconds_bounds [of t]
    by linarith
  from ten window [of "utcnow env 0" "utcnow env 1"] window [of "utcnow env 2" "utcnow env 3"]
  show ?thesis
    unfolding ca leaf whole_seconds_shift by simp
qed

theorem validity_windows_witness:
  "sign_run backend0 env0 csr0 dn0 sans0 email0 = Inr (locals0 sans0 [0x82, 0x59] (Inr ()))
   \<and> utcnow env0 0 \<le> utcnow env0 1
   \<and> utcnow env0 2 \<le> utcnow env0 3
   \<and> not_valid_before (l_ca_cert (locals0 sans0 [0x82, 0x59] (Inr ())))
       = whole_seconds (utcnow env0 0) - TIME_DELTA
   \<and> not_valid_after (l_ca_cert (locals0 sans0 [0x82, 0x59] (Inr ())))
       = whole_seconds (utcnow env0 1) + TIME_DELTA
   \<and> not_valid_before (l_ca_cert (locals0 sans0 [0x82, 0x59] (Inr ()))) < utcnow env0 0
   \<and> utcnow env0 1 < not_valid_after (l_ca_cert (locals0 sans0 [0x82, 0x59] (Inr ())))
   \<and> not_valid_after (l_certificate (locals0 sans0 [0x82, 0x59] (Inr ())))
       - not_valid_before (l_certificate (locals0 sans0 [0x82, 0x59] (Inr ())))
       = 2 * TIME_DELTA + (whole_seconds (utcnow env0 3) - whole_seconds (utcnow env0 2))
   \<and> not_valid_before (l_certificate (locals0 sans0 [0x82, 0x59] (Inr ()))) < utcnow env0 2
   \<and> utcnow env0 3 < not_valid_after (l_certificate (locals0 sans0 [0x82, 0x59] (Inr ())))"
proof -
  have run: "sign_run backend0 env0 csr0 dn0 sans0 email0
               = Inr (locals0 sans0 [0x82, 0x59] (Inr ()))"
    by (rule sign_run_concrete [OF dns_names_sans0])
  have clock: "utcnow env0 0 \<le> utcnow env0 1" "utcnow env0 2 \<le> utcnow env0 3"
    by (simp_all add: env0_def)
  from validity_windows [OF run] run clock show ?thesis
    by blast
qed

text \<open>C7 as stated fails. It says that \<^verbatim>\<open>notBefore\<close> is the issuance time minus 5 days
  and \<^verbatim>\<open>notAfter\<close> the issuance time plus 5 days, so that their difference is exactly
  10 days. The code has no single issuance time: it reads the clock anew for each
  bound. In the concrete run the CA's two readings are two microseconds apart, the
  first in the last microsecond of one second and the second in the next second, and
  the CA certificate's window is 10 days and one second long.\<close>

theorem validity_span_counterexample:
  "sign_run backend0 env0 csr0 dn0 sans0 email0 = Inr (locals0 sans0 [0x82, 0x59] (Inr ()))
   \<and> utcnow env0 0 = 1700000000999999
   \<and> utcnow env0 1 = 1700000001000001
   \<and> not_valid_before (l_ca_cert (locals0 sans0 [0x82, 0x59] (Inr ()))) = 1699568000000000
   \<and> not_valid_after (l_ca_cert (locals0 sans0 [0x82, 0x59] (Inr ()))) = 1700432001000000
   \<and> not_valid_after (l_ca_cert (locals0 sans0 [0x82, 0x59] (Inr ())))
       - not_valid_before (l_ca_cert (locals0 sans0 [0x82, 0x59] (Inr ())))
       = 864001000000
   \<and> 2 * TIME_DELTA = 864000000000
   \<and> not_valid_after (l_ca_cert (locals0 sans0 [0x82, 0x59] (Inr ())))
       - not_valid_before (l_ca_cert (locals0 sans0 [0x82, 0x59] (Inr ())))
       \<noteq> 2 * TIME_DELTA"
proof -
  have clock: "utcnow env0 0 = 1700000000999999" "utcnow env0 1 = 1700000001000001"
    by (simp_all add: env0_def)
  have bounds: "not_valid_before (l_ca_cert (locals0 sans0 [0x82, 0x59] (Inr ())))
                  = 1699568000000000"
    "not_valid_after (l_ca_cert (locals0 sans0 [0x82, 0x59] (Inr ()))) = 1700432001000000"
    by (simp_all add: locals0_def ca_cert0_def TIME_DELTA_def)
  from sign_run_concrete [OF dns_names_sans0] clock bounds show ?thesis
    by (simp add: TIME_DELTA_def)
qed

text \<open>C9, as the code has it: the CA certificate's serial number is \<^verbatim>\<open>int(uuid.uuid4())\<close>,
  a 128-bit value in the range from 0 to \<open>2 ^ 128\<close>; the leaf certificate's serial
  number comes from another generator, \<^verbatim>\<open>x509.random_serial_number()\<close>, and lies in the
  range from 0 to \<open>2 ^ 159\<close>.\<close>

theorem serial_numbers:
  assumes "sign_run self env csr subjectDN subjectAltNames email = Inr l"
  shows "serial_number (l_ca_cert l) = int_uuid4 (urandom_uuid4 env)
       \<and> 0 \<le> serial_number (l_ca_cert l)
       \<and> serial_number (l_ca_cert l) < 2 ^ 128
       \<and> serial_number (l_certificate l) = random_serial_number (urandom_serial env)
       \<and> 0 \<le> serial_number (l_certificate l)
       \<and> serial_number (l_certificate l) < 2 ^ 159"
proof -
  note ca = generate_ephemeral_ca_Inr(5) [OF sign_run_Inr(2) [OF assms]]
  note leaf = sign_run_Inr(6) [OF assms]
  from int_uuid4_bounds [of "urandom_uuid4 env"]
    random_serial_number_bounds [of "urandom_serial env"]
  show ?thesis
    unfolding ca leaf by blast
qed

theorem serial_numbers_witness:
  "sign_run backend0 env0 csr0 dn0 sans0 email0 = Inr (locals0 sans0 [0x82, 0x59] (Inr ()))
   \<and> serial_number (l_ca_cert (locals0 sans0 [0x82, 0x59] (Inr ()))) = int_uuid4 0
   \<and> serial_number (l_ca_cert (locals0 sans0 [0x82, 0x59] (Inr ()))) < 2 ^ 128
   \<and> serial_number (l_certificate (locals0 sans0 [0x82, 0x59] (Inr ()))) = random_serial_number (- 1)
   \<and> serial_number (l_certificate (locals0 sans0 [0x82, 0x59] (Inr ()))) < 2 ^ 159"
proof -
  have run: "sign_run backend0 env0 csr0 dn0 sans0 email0
               = Inr (locals0 sans0 [0x82, 0x59] (Inr ()))"
    by (rule sign_run_concrete [OF dns_names_sans0])
  have rnd: "urandom_uuid4 env0 = 0" "urandom_serial env0 = - 1"
    by (simp_all add: env0_def)
  from serial_numbers [OF run] run show ?thesis
    unfolding rnd by blast
qed

text \<open>C9 as stated fails. It says that the CA's serial number is a 128-bit random value
  and that the leaf's serial number comes from the same scheme. The first half holds.
  The leaf's generator shifts 20 random bytes right by one bit: in the concrete run,
  where those bytes are all ones, the leaf's serial number is \<open>2 ^ 159 - 1\<close>, beyond
  every value of the CA's scheme.\<close>

theorem leaf_serial_counterexample:
  "sign_run backend0 env0 csr0 dn0 sans0 email0 = Inr (locals0 sans0 [0x82, 0x59] (Inr ()))
   \<and> serial_number (l_certificate (locals0 sans0 [0x82, 0x59] (Inr ())))
       = 730750818665451459101842416358141509827966271487
   \<and> \<not> serial_number (l_certificate (locals0 sans0 [0x82, 0x59] (Inr ()))) < 2 ^ 128"
  by (simp add: sign_run_concrete [OF dns_names_sans0] locals0_def leaf0_def)

end
